theory Spec2Isabelle
  imports Main "HOL-Library.Sublist" "HOL-Library.AList" "HOL-Library.Multiset"
begin

section \<open>JavaScript string primitives\<close>

text \<open>
  The scripts work on JavaScript strings. A string is modelled as a list of characters;
  the character classes and the case conversions are the ASCII ones (the documentation
  that the scripts read is ASCII markdown). \<open>\s\<close> is tab, line feed, vertical tab, form
  feed, carriage return and space; \<open>\w\<close> is a letter, a digit or the underscore.
\<close>

definition is_space :: "char \<Rightarrow> bool" where
  "is_space c = (c \<in> set [CHR 0x09, CHR 0x0A, CHR 0x0B, CHR 0x0C, CHR 0x0D, CHR 0x20])"

definition is_word :: "char \<Rightarrow> bool" where
  "is_word c =
     (let n = (of_char c :: nat)
      in (48 \<le> n \<and> n \<le> 57) \<or> (65 \<le> n \<and> n \<le> 90) \<or> n = 95 \<or> (97 \<le> n \<and> n \<le> 122))"

definition lower_char :: "char \<Rightarrow> char" where
  "lower_char c =
     (let n = (of_char c :: nat) in if 65 \<le> n \<and> n \<le> 90 then char_of (n + 32) else c)"

definition upper_char :: "char \<Rightarrow> char" where
  "upper_char c =
     (let n = (of_char c :: nat) in if 97 \<le> n \<and> n \<le> 122 then char_of (n - 32) else c)"

definition toLowerCase :: "string \<Rightarrow> string" where
  "toLowerCase s = map lower_char s"

definition toUpperCase :: "string \<Rightarrow> string" where
  "toUpperCase s = map upper_char s"

text \<open>\<open>s.includes(sub)\<close>; \<open>s.startsWith(p)\<close> is \<^const>\<open>prefix\<close> and \<open>s.endsWith(p)\<close> is
  \<^const>\<open>suffix\<close>.\<close>

fun js_includes :: "string \<Rightarrow> string \<Rightarrow> bool" where
  "js_includes [] sub = (sub = [])"
| "js_includes (c # cs) sub = (prefix sub (c # cs) \<or> js_includes cs sub)"

text \<open>\<open>s.split(sep)\<close> for a non-empty separator: \<open>cur\<close> is the piece being read. After a
  separator is found at \<open>c # cs\<close> the scan resumes behind it, that is
  \<open>length sep - 1\<close> characters into \<open>cs\<close>.\<close>

fun split_from :: "string \<Rightarrow> string \<Rightarrow> string \<Rightarrow> string list" where
  "split_from sep cur [] = [cur]"
| "split_from sep cur (c # cs) =
     (if sep \<noteq> [] \<and> prefix sep (c # cs)
      then cur # split_from sep [] (drop (length sep - 1) cs)
      else split_from sep (cur @ [c]) cs)"

definition js_split :: "string \<Rightarrow> string \<Rightarrow> string list" where
  "js_split s sep = split_from sep [] s"

text \<open>\<open>s.split(/\s/g)\<close>: every white-space character is a separator.\<close>

fun split_space_from :: "string \<Rightarrow> string \<Rightarrow> string list" where
  "split_space_from cur [] = [cur]"
| "split_space_from cur (c # cs) =
     (if is_space c then cur # split_space_from [] cs else split_space_from (cur @ [c]) cs)"

fun join :: "string \<Rightarrow> string list \<Rightarrow> string" where
  "join sep [] = []"
| "join sep [x] = x"
| "join sep (x # y # ys) = x @ sep @ join sep (y # ys)"

definition trim :: "string \<Rightarrow> string" where
  "trim s = rev (dropWhile is_space (rev (dropWhile is_space s)))"

text \<open>\<open>s.replace(/s$/, '')\<close>\<close>

definition strip_final_s :: "string \<Rightarrow> string" where
  "strip_final_s s = (if s \<noteq> [] \<and> last s = CHR ''s'' then butlast s else s)"

text \<open>\<open>s.indexOf('?')\<close> followed by \<open>substring(0, queryIndex)\<close>, or the whole string when
  the index is \<open>-1\<close>.\<close>

definition indexOf :: "string \<Rightarrow> char \<Rightarrow> nat option" where
  "indexOf s c = (if c \<in> set s then Some (length (takeWhile (\<lambda>x. x \<noteq> c) s)) else None)"

section \<open>The type inferencer (\<open>getTypes\<close>)\<close>

text \<open>
  A Type IR node is a JavaScript object with a \<open>type\<close> tag and the optional keys
  \<open>startsWith\<close>, \<open>possibleValues\<close>, \<open>fields\<close>, \<open>id\<close> and \<open>arrayTypes\<close>. The emitter also
  builds lists whose members are themselves lists of nodes (\<open>[existing.type, field.type]\<close>):
  such a member is a \<open>TypeList\<close>.
\<close>

datatype ir =
    IR (t_type: string) (t_startsWith: "string option") (t_possibleValues: "string list option")
       (t_fields: "(string \<times> ir list) list option") (t_id: "string option")
       (t_arrayTypes: "ir list option")
  | TypeList "ir list"

definition plain :: "string \<Rightarrow> ir" where
  "plain ty = IR ty None None None None None"

definition array_of :: "ir list \<Rightarrow> ir" where
  "array_of ts = IR ''array'' None None None None (Some ts)"

definition typeAliases :: "string \<Rightarrow> string option" where
  "typeAliases = map_of
     [(''float'', ''number''), (''Boolean'', ''boolean''), (''int'', ''number''),
      (''integer'', ''number'')]"

text \<open>\<open>typeAliases[typeName] || typeName\<close>, for a type name that is none of the names
  that every JavaScript object inherits (\<open>constructor\<close>, \<open>toString\<close>, ...).\<close>

definition alias_of :: "string \<Rightarrow> string" where
  "alias_of typeName = (case typeAliases typeName of Some t \<Rightarrow> t | None \<Rightarrow> typeName)"

text \<open>\<open>type.type === ofType\<close>; a list has no \<open>type\<close> key.\<close>

fun has_type :: "string \<Rightarrow> ir \<Rightarrow> bool" where
  "has_type ofType (IR ty _ _ _ _ _) = (ty = ofType)"
| "has_type ofType (TypeList _) = False"

lemma find_size_less:
  assumes "find P types = Some (IR ty sw pv fs i (Some ats))"
  shows "size_list size ats < size_list size types"
proof -
  from assms have "IR ty sw pv fs i (Some ats) \<in> set types"
    by (auto simp: find_Some_iff)
  moreover have "size_list size ats < size (IR ty sw pv fs i (Some ats))"
    by simp
  ultimately show ?thesis
    by (rule size_list_estimation)
qed

function findType :: "ir list \<Rightarrow> string \<Rightarrow> ir option" where
  "findType types ofType =
     (case find (has_type ofType) types of
        Some exactMatch \<Rightarrow> Some exactMatch
      | None \<Rightarrow>
          (case find (has_type ''array'') types of
             Some (IR _ _ _ _ _ (Some ats)) \<Rightarrow> findType ats ofType
           | _ \<Rightarrow> None))"
  by pat_completeness auto
termination
  by (relation "measure (\<lambda>(types, _). size_list size types)") (auto dest: find_size_less)

text \<open>
  \<open>getTypes\<close> writes to the node that \<open>findType\<close> returned. \<open>update_found f types ofType\<close>
  is the list after \<open>f\<close> was applied to that node in place; it follows the search of
  \<open>findType\<close> step by step.
\<close>

fun update_first :: "('a \<Rightarrow> bool) \<Rightarrow> ('a \<Rightarrow> 'a) \<Rightarrow> 'a list \<Rightarrow> 'a list" where
  "update_first P f [] = []"
| "update_first P f (x # xs) = (if P x then f x # xs else x # update_first P f xs)"

fun set_arrayTypes :: "ir list \<Rightarrow> ir \<Rightarrow> ir" where
  "set_arrayTypes ats (IR ty sw pv fs i _) = IR ty sw pv fs i (Some ats)"
| "set_arrayTypes ats (TypeList ts) = TypeList ts"

function update_found :: "(ir \<Rightarrow> ir) \<Rightarrow> ir list \<Rightarrow> string \<Rightarrow> ir list" where
  "update_found f types ofType =
     (case find (has_type ofType) types of
        Some exactMatch \<Rightarrow> update_first (has_type ofType) f types
      | None \<Rightarrow>
          (case find (has_type ''array'') types of
             Some (IR _ _ _ _ _ (Some ats)) \<Rightarrow>
               (let ats' = update_found f ats ofType
                in update_first (has_type ''array'') (set_arrayTypes ats') types)
           | _ \<Rightarrow> types))"
  by pat_completeness auto
termination
  by (relation "measure (\<lambda>(_, types, _). size_list size types)") (auto dest: find_size_less)

fun set_startsWith :: "string \<Rightarrow> ir \<Rightarrow> ir" where
  "set_startsWith p (IR ty _ pv fs i ats) = IR ty (Some p) pv fs i ats"
| "set_startsWith p (TypeList ts) = TypeList ts"

fun set_possibleValues :: "string list \<Rightarrow> ir \<Rightarrow> ir" where
  "set_possibleValues vs (IR ty sw _ fs i ats) = IR ty sw (Some vs) fs i ats"
| "set_possibleValues vs (TypeList ts) = TypeList ts"

fun set_fields :: "(string \<times> ir list) list \<Rightarrow> ir \<Rightarrow> ir" where
  "set_fields fs (IR ty sw pv _ i ats) = IR ty sw pv (Some fs) i ats"
| "set_fields fs (TypeList ts) = TypeList ts"

fun set_id :: "string \<Rightarrow> ir \<Rightarrow> ir" where
  "set_id i (IR ty sw pv fs _ ats) = IR ty sw pv fs (Some i) ats"
| "set_id i (TypeList ts) = TypeList ts"

subsection \<open>The regular expressions of \<open>getTypes\<close>\<close>

text \<open>
  Each regular expression is a fixed text around one or two character-class runs
  (\<open>\w+\<close>, \<open>(\w|\s)+\<close>, \<open>(\w|-)+\<close>, \<open>\s*\<close>). The character that has to follow a run is
  never in the run's class, so the only way to match is to take the longest run:
  \<^const>\<open>takeWhile\<close> reads it and \<^const>\<open>dropWhile\<close> gives the text behind it.
\<close>

text \<open>\<open>/starting with \*\*(\w+)\*\*/\<close> at the start of \<open>s\<close>: the captured prefix.\<close>

definition startsWith_here :: "string \<Rightarrow> string option" where
  "startsWith_here s =
     (if prefix ''starting with **'' s
      then (let r = drop (length ''starting with **'') s;
                w = takeWhile is_word r
            in if w \<noteq> [] \<and> prefix ''**'' (dropWhile is_word r) then Some w else None)
      else None)"

text \<open>\<open>description.match(re)\<close> without the \<open>g\<close> flag: the leftmost match.\<close>

fun first_match :: "(string \<Rightarrow> 'a option) \<Rightarrow> string \<Rightarrow> 'a option" where
  "first_match here [] = here []"
| "first_match here (c # cs) =
     (case here (c # cs) of Some m \<Rightarrow> Some m | None \<Rightarrow> first_match here cs)"

text \<open>\<open>^(\\\*|\*|\-)\<close>: a line that starts with a backslash and a star, with a star or
  with a dash; the result is the text behind the bullet.\<close>

definition bullet :: "string \<Rightarrow> string option" where
  "bullet line =
     (if prefix [CHR 0x5C, CHR ''*''] line then Some (drop 2 line)
      else if prefix ''*'' line then Some (drop 1 line)
      else if prefix ''-'' line then Some (drop 1 line)
      else None)"

text \<open>\<open>\s*Q((\w|\s)+)Q\<close> behind the bullet, where the quote \<open>Q\<close> is \<open>**\<close> for the
  possible values and a backtick for the inline fields; the result is the second group.\<close>

definition quoted :: "string \<Rightarrow> string \<Rightarrow> string option" where
  "quoted q s =
     (let r = dropWhile is_space s
      in if prefix q r
         then (let r' = drop (length q) r;
                   v = takeWhile (\<lambda>c. is_word c \<or> is_space c) r'
               in if v \<noteq> [] \<and> prefix q (dropWhile (\<lambda>c. is_word c \<or> is_space c) r')
                  then Some v else None)
         else None)"

text \<open>\<open>line.match(/^(\\\*|\*|\-)\s*\*\*((\w|\s)+)\*\*/)\<close> and
  \<open>line.match(/^(\\\*|\*|\-)\s*\`((\w|\s)+)\`/)\<close>\<close>

definition bullet_match :: "string \<Rightarrow> string \<Rightarrow> string option" where
  "bullet_match q line = (case bullet line of Some rest \<Rightarrow> quoted q rest | None \<Rightarrow> None)"

text \<open>The two loops over \<open>description.split('\n')\<close> that push \<open>value.trim()\<close>.\<close>

definition bullet_values :: "string \<Rightarrow> string \<Rightarrow> string list" where
  "bullet_values q description =
     concat (map (\<lambda>line. case bullet_match q line of Some v \<Rightarrow> [trim v] | None \<Rightarrow> [])
                 (js_split description [CHR 0x0A]))"

text \<open>\<open>/see \[((\w|\s)+)\]\(ref\:((\w|-)+)\)/i\<close> at the start of \<open>s\<close>: the captured slug.
  The flag \<open>i\<close> makes the letters of \<open>see\<close> and \<open>ref\<close> match in either case.\<close>

definition prefix_ci :: "string \<Rightarrow> string \<Rightarrow> bool" where
  "prefix_ci p s = (length p \<le> length s \<and> toLowerCase (take (length p) s) = toLowerCase p)"

definition objectRef_here :: "string \<Rightarrow> string option" where
  "objectRef_here s =
     (if prefix_ci ''see ['' s
      then (let r = drop (length ''see ['') s;
                label = takeWhile (\<lambda>c. is_word c \<or> is_space c) r;
                r' = dropWhile (\<lambda>c. is_word c \<or> is_space c) r
            in if label \<noteq> [] \<and> prefix_ci ''](ref:'' r'
               then (let r'' = drop (length ''](ref:'') r';
                         slug = takeWhile (\<lambda>c. is_word c \<or> c = CHR ''-'') r''
                     in if slug \<noteq> [] \<and> prefix '')'' (dropWhile (\<lambda>c. is_word c \<or> c = CHR ''-'') r'')
                        then Some slug else None)
               else None)
      else None)"

subsection \<open>\<open>getTypes\<close>\<close>

definition rawTypes :: "string \<Rightarrow> ir list" where
  "rawTypes rawType =
     (if js_includes rawType ''array of'' \<or> js_includes rawType ''list of''
      then [array_of [plain (alias_of (strip_final_s (last (js_split rawType '' ''))))]]
      else if js_includes rawType '' or ''
      then map (\<lambda>typeName. plain (alias_of typeName)) (js_split rawType '' or '')
      else if rawType = ''array_string'' then [array_of [plain ''string'']]
      else if rawType = ''array_object'' then [array_of [plain ''object'']]
      else [plain (alias_of rawType)])"

definition getTypes :: "string \<Rightarrow> string \<Rightarrow> ir list" where
  "getTypes rawType description =
     (let types = rawTypes rawType;
          stringType = findType types ''string'';
          objectType = findType types ''object'';
          types =
            (case first_match startsWith_here description of
               Some p \<Rightarrow>
                 if stringType \<noteq> None then update_found (set_startsWith p) types ''string''
                 else types
             | None \<Rightarrow> types);
          types =
            (if stringType \<noteq> None \<and>
                (js_includes description ''of the following'' \<or> js_includes description ''ossible values'')
             then (let possibleValues = bullet_values ''**'' description
                   in if possibleValues \<noteq> []
                      then update_found (set_possibleValues possibleValues) types ''string''
                      else types)
             else types);
          types =
            (if objectType \<noteq> None \<and> js_includes description ''the following fields''
             then (let fields = map (\<lambda>v. (v, [plain ''unknown''])) (bullet_values ''`'' description)
                   in if fields \<noteq> [] then update_found (set_fields fields) types ''object''
                      else types)
             else types);
          types =
            (case first_match objectRef_here description of
               Some ref \<Rightarrow>
                 if objectType \<noteq> None then update_found (set_id ref) types ''object''
                 else types
             | None \<Rightarrow> types)
      in types)"

section \<open>The reference extractor\<close>

subsection \<open>Input: documentation nodes\<close>

text \<open>
  A documentation node is the JSON object that the page embeds: \<open>slug\<close>, \<open>title\<close>, \<open>type\<close>
  and \<open>body\<close> are strings, \<open>excerpt\<close>, \<open>api\<close> and \<open>children\<close> may be absent. A parameter of
  \<open>api.params\<close> has the keys \<open>name\<close>, \<open>in\<close>, \<open>type\<close>, \<open>desc\<close> and \<open>required\<close>.
\<close>

record param =
  p_name :: string
  p_in :: string
  p_type :: string
  p_desc :: string
  p_required :: bool

record api =
  a_url :: string
  a_method :: string
  a_params :: "param list"

datatype doc =
  Doc (d_slug: string) (d_title: string) (d_type: string) (d_body: string)
      (d_excerpt: "string option") (d_api: "api option") (d_children: "doc list option")

record product =
  pr_id :: string
  pr_urls :: "string list"

subsection \<open>Output: references\<close>

record enum_value =
  v_name :: string
  v_description :: string

record field =
  f_name :: string
  f_type :: "ir list"
  f_required :: bool
  f_description :: string

text \<open>
  A reference is a JavaScript object; which keys it has depends on its \<open>type\<close> (\<open>'type'\<close>,
  \<open>'enum'\<close> or \<open>'request'\<close>) and on the fix that was spread over it, so every key beyond
  \<open>product\<close>, \<open>id\<close>, \<open>type\<close> and \<open>name\<close> is optional.
\<close>

record reference =
  r_product :: string
  r_parent :: "string option"
  r_id :: string
  r_type :: string
  r_name :: string
  r_description :: "string option"
  r_fields :: "field list option"
  r_values :: "enum_value list option"
  r_method :: "string option"
  r_path :: "string option"
  r_params :: "field list option"
  r_body :: "field list option"
  r_headers :: "field list option"
  r_query :: "field list option"

text \<open>
  \<open>reference-fixes.json\<close> is not part of the sources: it is a parameter \<open>fixes\<close>, an object
  keyed by slug whose values are partial references. \<open>...fixes[reference.slug]\<close> is the last
  entry of each object literal, so every key of the fix replaces the extracted one.
\<close>

record patch =
  x_product :: "string option"
  x_parent :: "string option"
  x_id :: "string option"
  x_type :: "string option"
  x_name :: "string option"
  x_description :: "string option"
  x_fields :: "field list option"
  x_values :: "enum_value list option"
  x_method :: "string option"
  x_path :: "string option"
  x_params :: "field list option"
  x_body :: "field list option"
  x_headers :: "field list option"
  x_query :: "field list option"

type_synonym fixes_json = "string \<Rightarrow> patch option"

definition or_else :: "'a option \<Rightarrow> 'a option \<Rightarrow> 'a option" where
  "or_else x y = (case x of Some v \<Rightarrow> Some v | None \<Rightarrow> y)"

definition spread :: "patch option \<Rightarrow> reference \<Rightarrow> reference" where
  "spread fx r =
     (case fx of
        None \<Rightarrow> r
      | Some x \<Rightarrow>
          \<lparr> r_product = (case x_product x of Some v \<Rightarrow> v | None \<Rightarrow> r_product r),
            r_parent = or_else (x_parent x) (r_parent r),
            r_id = (case x_id x of Some v \<Rightarrow> v | None \<Rightarrow> r_id r),
            r_type = (case x_type x of Some v \<Rightarrow> v | None \<Rightarrow> r_type r),
            r_name = (case x_name x of Some v \<Rightarrow> v | None \<Rightarrow> r_name r),
            r_description = or_else (x_description x) (r_description r),
            r_fields = or_else (x_fields x) (r_fields r),
            r_values = or_else (x_values x) (r_values r),
            r_method = or_else (x_method x) (r_method r),
            r_path = or_else (x_path x) (r_path r),
            r_params = or_else (x_params x) (r_params r),
            r_body = or_else (x_body x) (r_body r),
            r_headers = or_else (x_headers x) (r_headers r),
            r_query = or_else (x_query x) (r_query r) \<rparr>)"

text \<open>What a script throws: a \<open>TypeError\<close> for a property read on \<open>undefined\<close>, a
  \<open>SyntaxError\<close> from \<open>JSON.parse\<close>.\<close>

datatype js_error = TypeError | SyntaxError

subsection \<open>\<open>addErrors\<close>\<close>

text \<open>\<open>/\*\*(\w+)\*\*\n(.*)\n/g\<close> at the start of \<open>s\<close>: the value and the length of the match.
  The dot matches every character but a line terminator.\<close>

definition is_line_terminator :: "char \<Rightarrow> bool" where
  "is_line_terminator c = (c = CHR 0x0A \<or> c = CHR 0x0D)"

definition error_here :: "string \<Rightarrow> (enum_value \<times> nat) option" where
  "error_here s =
     (if prefix ''**'' s
      then (let r = drop 2 s;
                name = takeWhile is_word r;
                r' = dropWhile is_word r
            in if name \<noteq> [] \<and> prefix (''**'' @ [CHR 0x0A]) r'
               then (let r'' = drop 3 r';
                         description = takeWhile (\<lambda>c. \<not> is_line_terminator c) r''
                     in if prefix [CHR 0x0A] (dropWhile (\<lambda>c. \<not> is_line_terminator c) r'')
                        then Some (\<lparr> v_name = name, v_description = description \<rparr>,
                                   2 + length name + 3 + length description + 1)
                        else None)
               else None)
      else None)"

text \<open>\<open>body.matchAll(re)\<close>: after a match of length \<open>n\<close> at \<open>c # cs\<close> the search resumes
  behind it, \<open>n - 1\<close> characters into \<open>cs\<close>.\<close>

fun matchAll_errors :: "string \<Rightarrow> enum_value list" where
  "matchAll_errors [] = []"
| "matchAll_errors (c # cs) =
     (case error_here (c # cs) of
        Some (v, n) \<Rightarrow> v # matchAll_errors (drop (n - 1) cs)
      | None \<Rightarrow> matchAll_errors cs)"

text \<open>\<open>title.replace(/(\s|Object$)/g, '')\<close> and \<open>title.replace(/(\s|Errors$)/g, '')\<close>:
  white space goes everywhere, the marker goes at the end.\<close>

fun strip_space_and_final :: "string \<Rightarrow> string \<Rightarrow> string" where
  "strip_space_and_final marker [] = []"
| "strip_space_and_final marker (c # cs) =
     (if is_space c then strip_space_and_final marker cs
      else if c # cs = marker then []
      else c # strip_space_and_final marker cs)"

definition addErrors :: "fixes_json \<Rightarrow> string \<Rightarrow> doc \<Rightarrow> string \<Rightarrow> reference list \<Rightarrow> reference list" where
  "addErrors fixes product reference parent references =
     references @
     [spread (fixes (d_slug reference))
        \<lparr> r_product = product,
          r_parent = Some parent,
          r_id = d_slug reference,
          r_type = ''enum'',
          r_name = strip_space_and_final ''Errors'' (d_title reference) @ ''Error'',
          r_description = None,
          r_fields = None,
          r_values = Some (matchAll_errors (d_body reference)),
          r_method = None, r_path = None, r_params = None, r_body = None,
          r_headers = None, r_query = None \<rparr>]"

subsection \<open>\<open>getTypeTable\<close> and \<open>addType\<close>\<close>

text \<open>
  \<open>JSON.parse\<close> is a parameter \<open>parse\<close>: \<open>None\<close> is the \<open>SyntaxError\<close>, \<open>Some\<close> the parsed
  parameters block, with \<open>Object.entries(data)\<close> as a list of pairs of strings and \<open>rows\<close>
  as a natural number.
\<close>

record block =
  b_data :: "(string \<times> string) list"
  b_rows :: nat

type_synonym parse = "string \<Rightarrow> block option"

record row =
  row_name :: "string option"
  row_type :: "string option"
  row_description :: "string option"

definition empty_row :: row where
  "empty_row = \<lparr> row_name = None, row_type = None, row_description = None \<rparr>"

definition is_digit :: "char \<Rightarrow> bool" where
  "is_digit c = (let n = (of_char c :: nat) in 48 \<le> n \<and> n \<le> 57)"

text \<open>
  A string as an index of an array. \<open>+row\<close> is read for a string of decimal digits (the
  empty string is 0); the other spellings of a number (a sign, a fraction, an exponent,
  a hexadecimal prefix, surrounding blanks) do not occur as row keys and are not
  modelled. A number from \<open>2^32 - 1\<close> on, like every key that is no number, names a
  property that is no element of the array: the loop \<open>for (const row of table)\<close> never
  sees it.
\<close>

definition to_index :: "string \<Rightarrow> nat option" where
  "to_index s =
     (if list_all is_digit s
      then (let n = foldl (\<lambda>n c. 10 * n + (of_char c - 48)) (0 :: int) s
            in if n < 2 ^ 32 - 1 then Some (nat n) else None)
      else None)"

text \<open>A key that is an array index as it stands (\<open>array[key]\<close>, and the order of
  \<open>Object.values\<close>): decimal digits without a leading zero.\<close>

definition is_index_key :: "string \<Rightarrow> bool" where
  "is_index_key k =
     (k \<noteq> [] \<and> list_all is_digit k \<and> (hd k = CHR ''0'' \<longrightarrow> k = ''0'') \<and> to_index k \<noteq> None)"

definition typeTableColumns :: "string list" where
  "typeTableColumns = [''name'', ''type'', ''description'']"

text \<open>\<open>typeTableColumns[col]\<close>: \<open>undefined\<close> when there is no \<open>col\<close> or it is no index of the
  list.\<close>

definition column :: "string option \<Rightarrow> string option" where
  "column col =
     (case col of
        None \<Rightarrow> None
      | Some c \<Rightarrow>
          if is_index_key c \<and> the (to_index c) < length typeTableColumns
          then Some (typeTableColumns ! the (to_index c))
          else None)"

text \<open>\<open>table[+row][typeTableColumns[col]] = value\<close>; a key other than \<open>name\<close>, \<open>type\<close> and
  \<open>description\<close> is never read.\<close>

definition set_column :: "string option \<Rightarrow> string \<Rightarrow> row \<Rightarrow> row" where
  "set_column col v r =
     (if column col = Some ''name'' then r\<lparr> row_name := Some v \<rparr>
      else if column col = Some ''type'' then r\<lparr> row_type := Some v \<rparr>
      else if column col = Some ''description'' then r\<lparr> row_description := Some v \<rparr>
      else r)"

text \<open>An assignment behind the end of the array makes the array longer; the elements in
  between stay empty.\<close>

definition put_row :: "nat \<Rightarrow> (row \<Rightarrow> row) \<Rightarrow> row option list \<Rightarrow> row option list" where
  "put_row i f table =
     (let table' = table @ replicate (Suc i - length table) None
      in table'[i := Some (f (case table' ! i of Some r \<Rightarrow> r | None \<Rightarrow> empty_row))])"

definition table_entry :: "row option list \<Rightarrow> string \<times> string \<Rightarrow> row option list" where
  "table_entry table entry =
     (let pieces = take 2 (js_split (fst entry) ''-'');
          row = hd pieces;
          col = (if length pieces = 2 then Some (pieces ! 1) else None)
      in if row = ''h'' then table
         else (case to_index row of
                 Some i \<Rightarrow> put_row i (set_column col (snd entry)) table
               | None \<Rightarrow> table))"

text \<open>The second loop: an empty element or a row without \<open>name\<close>, \<open>type\<close> or
  \<open>description\<close> is a \<open>TypeError\<close>.\<close>

fun table_fields :: "row option list \<Rightarrow> js_error + field list" where
  "table_fields [] = Inr []"
| "table_fields (None # rs) = Inl TypeError"
| "table_fields (Some r # rs) =
     (case (row_name r, row_type r, row_description r) of
        (Some n, Some t, Some d) \<Rightarrow>
          (case table_fields rs of
             Inl e \<Rightarrow> Inl e
           | Inr fs \<Rightarrow>
               Inr (\<lparr> f_name = filter (\<lambda>c. c \<noteq> CHR 0x60) n, f_type = getTypes t d,
                      f_required = True, f_description = d \<rparr> # fs))
      | _ \<Rightarrow> Inl TypeError)"

definition getTypeTable :: "block \<Rightarrow> js_error + field list" where
  "getTypeTable b = table_fields (foldl table_entry (replicate (b_rows b) None) (b_data b))"

text \<open>The first match of \<open>/\[block:parameters\]((.|\n|\s)*?)\[\/block\]/g\<close>: the text between
  the first \<open>[block:parameters]\<close> and the first \<open>[/block]\<close> behind it.\<close>

fun after_first :: "string \<Rightarrow> string \<Rightarrow> string option" where
  "after_first sub [] = (if sub = [] then Some [] else None)"
| "after_first sub (c # cs) =
     (if prefix sub (c # cs) then Some (drop (length sub) (c # cs)) else after_first sub cs)"

fun before_first :: "string \<Rightarrow> string \<Rightarrow> string option" where
  "before_first sub [] = (if sub = [] then Some [] else None)"
| "before_first sub (c # cs) =
     (if prefix sub (c # cs) then Some []
      else (case before_first sub cs of Some b \<Rightarrow> Some (c # b) | None \<Rightarrow> None))"

definition first_block :: "string \<Rightarrow> string option" where
  "first_block body =
     (case after_first ''[block:parameters]'' body of
        Some rest \<Rightarrow> before_first ''[/block]'' rest
      | None \<Rightarrow> None)"

definition addType ::
  "fixes_json \<Rightarrow> parse \<Rightarrow> string \<Rightarrow> doc \<Rightarrow> reference list \<Rightarrow> js_error + reference list" where
  "addType fixes parse product reference references =
     (case first_block (d_body reference) of
        None \<Rightarrow> Inr references
      | Some json \<Rightarrow>
          (case parse json of
             None \<Rightarrow> Inl SyntaxError
           | Some b \<Rightarrow>
               (case getTypeTable b of
                  Inl e \<Rightarrow> Inl e
                | Inr table \<Rightarrow>
                    Inr (references @
                      [spread (fixes (d_slug reference))
                         \<lparr> r_product = product,
                           r_parent = None,
                           r_id = d_slug reference,
                           r_type = ''type'',
                           r_name = strip_space_and_final ''Object'' (d_title reference),
                           r_description =
                             Some (case d_excerpt reference of Some e \<Rightarrow> e | None \<Rightarrow> []),
                           r_fields = Some table,
                           r_values = None,
                           r_method = None, r_path = None, r_params = None, r_body = None,
                           r_headers = None, r_query = None \<rparr>]))))"

subsection \<open>\<open>getParamsIn\<close> and \<open>addRequest\<close>\<close>

definition getParamsIn :: "api \<Rightarrow> string \<Rightarrow> field list" where
  "getParamsIn a location =
     map (\<lambda>p. \<lparr> f_name = p_name p, f_type = getTypes (p_type p) (p_desc p),
                f_required = p_required p, f_description = p_desc p \<rparr>)
         (filter (\<lambda>p. p_in p = location) (a_params a))"

definition excludeHeaders :: "string list" where
  "excludeHeaders =
     [''access_key'', ''salt'', ''signature'', ''timestamp'', ''idempotency'', ''content-type'',
      ''content_type'']"

text \<open>\<open>url.substring(0, queryIndex)\<close>, or the url when it has no \<open>?\<close>.\<close>

definition url_path :: "string \<Rightarrow> string" where
  "url_path url = (case indexOf url (CHR ''?'') of Some queryIndex \<Rightarrow> take queryIndex url | None \<Rightarrow> url)"

text \<open>\<open>path.replace(/\:(\w+)/g, '{$1}')\<close>\<close>

fun colon_to_brace :: "string \<Rightarrow> string" where
  "colon_to_brace [] = []"
| "colon_to_brace (c # cs) =
     (if c = CHR '':'' \<and> takeWhile is_word cs \<noteq> []
      then ''{'' @ takeWhile is_word cs @ ''}'' @ colon_to_brace (drop (length (takeWhile is_word cs)) cs)
      else c # colon_to_brace cs)"

text \<open>\<open>segment[0].toUpperCase() + segment.substring(1)\<close>: an empty segment has no
  \<open>segment[0]\<close>.\<close>

definition capitalize :: "string \<Rightarrow> js_error + string" where
  "capitalize segment = (case segment of [] \<Rightarrow> Inl TypeError | c # cs \<Rightarrow> Inr (upper_char c # cs))"

fun all_ok :: "('e + 'a) list \<Rightarrow> 'e + 'a list" where
  "all_ok [] = Inr []"
| "all_ok (Inl e # xs) = Inl e"
| "all_ok (Inr x # xs) = (case all_ok xs of Inl e \<Rightarrow> Inl e | Inr ys \<Rightarrow> Inr (x # ys))"

text \<open>\<open>title.split(/\s/g).map(...).join(' ').replace(/(\s|\-)/g, '') + 'Request'\<close>\<close>

definition request_name :: "string \<Rightarrow> js_error + string" where
  "request_name title =
     (case all_ok (map capitalize (split_space_from [] title)) of
        Inl e \<Rightarrow> Inl e
      | Inr segments \<Rightarrow>
          Inr (filter (\<lambda>c. \<not> is_space c \<and> c \<noteq> CHR ''-'') (join '' '' segments) @ ''Request''))"

text \<open>The object literal of \<open>addRequest\<close> before the fix is spread over it.\<close>

definition request_of :: "string \<Rightarrow> doc \<Rightarrow> string \<Rightarrow> js_error + reference" where
  "request_of product reference parent =
     (case d_api reference of
        None \<Rightarrow> Inl TypeError
      | Some a \<Rightarrow>
          (case request_name (d_title reference) of
             Inl e \<Rightarrow> Inl e
           | Inr name \<Rightarrow>
               Inr \<lparr> r_product = product,
                     r_parent = Some parent,
                     r_id = d_slug reference,
                     r_type = ''request'',
                     r_name = name,
                     r_description = d_excerpt reference,
                     r_fields = None,
                     r_values = None,
                     r_method = Some (toUpperCase (a_method a)),
                     r_path = Some (colon_to_brace (url_path (a_url a))),
                     r_params = Some (map (\<lambda>param. param\<lparr> f_required := True \<rparr>) (getParamsIn a ''path'')),
                     r_body = Some (getParamsIn a ''body''),
                     r_headers =
                       Some (filter (\<lambda>header. toLowerCase (f_name header) \<notin> set excludeHeaders)
                                    (getParamsIn a ''header'')),
                     r_query = Some (getParamsIn a ''query'') \<rparr>))"

definition addRequest ::
  "fixes_json \<Rightarrow> string \<Rightarrow> doc \<Rightarrow> string \<Rightarrow> reference list \<Rightarrow> js_error + reference list" where
  "addRequest fixes product reference parent references =
     (case request_of product reference parent of
        Inl e \<Rightarrow> Inl e
      | Inr r \<Rightarrow> Inr (references @ [spread (fixes (d_slug reference)) r]))"

subsection \<open>\<open>handleReference\<close>\<close>

text \<open>\<open>title.replace(/ - (Collect|Disburse|Wallet|Issuing)/g, '')\<close>: \<open>skip\<close> counts the
  characters of a match that are still to be dropped.\<close>

definition product_suffixes :: "string list" where
  "product_suffixes = ['' - Collect'', '' - Disburse'', '' - Wallet'', '' - Issuing'']"

fun remove_suffixes :: "nat \<Rightarrow> string \<Rightarrow> string" where
  "remove_suffixes skip [] = []"
| "remove_suffixes (Suc skip) (c # cs) = remove_suffixes skip cs"
| "remove_suffixes 0 (c # cs) =
     (case find (\<lambda>m. prefix m (c # cs)) product_suffixes of
        Some m \<Rightarrow> remove_suffixes (length m - 1) cs
      | None \<Rightarrow> c # remove_suffixes 0 cs)"

text \<open>
  The list \<open>references\<close> is the global array that the calls push to; a call returns it
  with the new references appended, or the error it throws. The two warnings go to the
  console and leave the list as it is.
\<close>

fun handleReference ::
    "fixes_json \<Rightarrow> parse \<Rightarrow> product \<Rightarrow> doc \<Rightarrow> doc option \<Rightarrow> reference list \<Rightarrow> js_error + reference list"
  and handleChildren ::
    "fixes_json \<Rightarrow> parse \<Rightarrow> product \<Rightarrow> doc list \<Rightarrow> doc option \<Rightarrow> reference list \<Rightarrow> js_error + reference list"
  where
  "handleReference fixes parse product (Doc slug title0 ty body excerpt a children) parent references =
     (let title = remove_suffixes 0 title0;
          reference = Doc slug title ty body excerpt a children
      in if ty = ''basic'' then
           (if js_includes title ''Sequence'' then Inr references
            else if suffix ''Object'' title then
              (case addType fixes parse (pr_id product) reference references of
                 Inl e \<Rightarrow> Inl e
               | Inr references' \<Rightarrow>
                   (case children of
                      Some cs \<Rightarrow> handleChildren fixes parse product cs (Some reference) references'
                    | None \<Rightarrow> Inr references'))
            else if suffix ''Errors'' title then
              (case parent of
                 Some p \<Rightarrow> Inr (addErrors fixes (pr_id product) reference (d_slug p) references)
               | None \<Rightarrow> Inr references)
            else if prefix ''Webhook'' title then Inr references
            else Inr references)
         else if ty = ''endpoint'' then
           (case parent of
              Some p \<Rightarrow> addRequest fixes (pr_id product) reference (d_slug p) references
            | None \<Rightarrow> Inr references)
         else Inr references)"
| "handleChildren fixes parse product [] parent references = Inr references"
| "handleChildren fixes parse product (child # cs) parent references =
     (case handleReference fixes parse product child parent references of
        Inl e \<Rightarrow> Inl e
      | Inr references' \<Rightarrow> handleChildren fixes parse product cs parent references')"

subsection \<open>The run\<close>

text \<open>
  Every url of every product is fetched at once (\<open>Promise.all\<close> over \<open>products.map\<close> and
  \<open>product.urls.map\<close>). What follows the two \<open>await\<close>s of a callback is synchronous: the
  loop \<open>for (const reference of docs) handleReference(product, reference)\<close> runs to its
  end before another callback resumes. So a run is given by the pages in the order in
  which their downloads complete; a page is the product and the \<open>docs\<close> read from one url.
  \<open>references.json\<close> is written by the \<open>then\<close> callback, which a rejected promise skips:
  an error in any page leaves no artifact.
\<close>

type_synonym page = "product \<times> doc list"

fun handlePages :: "fixes_json \<Rightarrow> parse \<Rightarrow> page list \<Rightarrow> reference list \<Rightarrow> js_error + reference list" where
  "handlePages fixes parse [] references = Inr references"
| "handlePages fixes parse ((product, docs) # pages) references =
     (case handleChildren fixes parse product docs None references of
        Inl e \<Rightarrow> Inl e
      | Inr references' \<Rightarrow> handlePages fixes parse pages references')"

definition extraction :: "fixes_json \<Rightarrow> parse \<Rightarrow> page list \<Rightarrow> js_error + reference list" where
  "extraction fixes parse completed = handlePages fixes parse completed []"

section \<open>The code emitter\<close>

text \<open>
  The second script reads \<open>references.json\<close> into the constant \<open>references\<close>, here the
  first argument of every function that looks a reference up.
\<close>

definition find_reference :: "reference list \<Rightarrow> string \<Rightarrow> reference option" where
  "find_reference references i = find (\<lambda>reference. r_id reference = i) references"

text \<open>An optional string in a condition (\<open>if (type.startsWith)\<close>, \<open>if (type.id)\<close>): absent
  and empty are both false.\<close>

definition truthy :: "string option \<Rightarrow> bool" where
  "truthy x = (case x of Some v \<Rightarrow> v \<noteq> [] | None \<Rightarrow> False)"

abbreviation quote :: string where
  "quote \<equiv> [CHR 0x27]"

subsection \<open>\<open>formatType\<close>\<close>

fun formatType :: "reference list \<Rightarrow> ir list \<Rightarrow> string" where
  "formatType references types =
     join '' | ''
       (map (\<lambda>t. case t of
                 IR ty sw pv fs i ats \<Rightarrow>
                   if ty = ''string'' then
                     (if truthy sw then ''`'' @ the sw @ ''${string}`''
                      else (case pv of
                              Some possibleValues \<Rightarrow>
                                join '' | '' (map (\<lambda>v. quote @ v @ quote) possibleValues)
                            | None \<Rightarrow> ''string''))
                   else if ty = ''object'' then
                     (case fs of
                        Some inline_fields \<Rightarrow>
                          ''{ '' @
                          join ''; ''
                            (map (\<lambda>field. fst field @ '': '' @ formatType references (snd field))
                                 inline_fields) @
                          '' }''
                      | None \<Rightarrow>
                          (if truthy i
                           then (case find_reference references (the i) of
                                   Some reference \<Rightarrow> ''Partial<'' @ r_name reference @ ''>''
                                 | None \<Rightarrow> ''object'')
                           else ''object''))
                   else if ty = ''number'' \<or> ty = ''boolean'' then ty
                   else if ty = ''array'' then
                     (case ats of
                        Some arrayTypes \<Rightarrow> ''('' @ formatType references arrayTypes @ '')[]''
                      | None \<Rightarrow> ''any[]'')
                   else ''unknown''
               | TypeList ts \<Rightarrow> formatType references ts)
            types)"

subsection \<open>\<open>getDescription\<close>, \<open>getExternalIds\<close>, \<open>getReferencePath\<close>\<close>

text \<open>\<open>description.replace(/\\\*/g, '-')\<close>\<close>

fun escaped_stars :: "string \<Rightarrow> string" where
  "escaped_stars (c # d # cs) =
     (if c = CHR 0x5C \<and> d = CHR ''*'' then CHR ''-'' # escaped_stars cs
      else c # escaped_stars (d # cs))"
| "escaped_stars cs = cs"

definition getDescription :: "string \<Rightarrow> string" where
  "getDescription description =
     ''  /**\<newline>'' @
     ''   * '' @ join ''\<newline>   * '' (js_split (escaped_stars description) ''\<newline>'') @ ''\<newline>'' @
     ''   */\<newline>''"

fun next_ids :: "ir \<Rightarrow> string list" where
  "next_ids (IR ty sw pv fs i ats) =
     (if truthy i then [the i] else []) @
     (if ty = ''array'' then (case ats of Some arrayTypes \<Rightarrow> concat (map next_ids arrayTypes) | None \<Rightarrow> [])
      else [])"
| "next_ids (TypeList ts) = []"

definition getExternalIds :: "ir list \<Rightarrow> string list" where
  "getExternalIds types = concat (map next_ids types)"

text \<open>
  A path below \<open>generatedRoot\<close> is the list of its segments. \<open>product\<close>, \<open>type\<close> and \<open>name\<close>
  are taken to be plain segments (not empty, no separator, no dot segment), as the
  documentation has them, so that \<open>path.join\<close> keeps each as it is. The object that
  \<open>generateRequest\<close> passes to \<open>formatInterface\<close> has no \<open>type\<close> key, and
  \<open>reference.type + 's'\<close> is then \<open>undefineds\<close>.
\<close>

definition getReferencePath :: "string \<Rightarrow> string option \<Rightarrow> string \<Rightarrow> string list" where
  "getReferencePath product ty name =
     [product, (case ty of Some t \<Rightarrow> t | None \<Rightarrow> ''undefined'') @ ''s'', name @ ''.ts'']"

text \<open>\<open>path.relative(from, to)\<close> on two segment lists below the same root.\<close>

fun relative :: "string list \<Rightarrow> string list \<Rightarrow> string" where
  "relative (f # fs) (t # ts) =
     (if f = t then relative fs ts else join ''/'' (map (\<lambda>_. ''..'') (f # fs) @ (t # ts)))"
| "relative fs ts = join ''/'' (map (\<lambda>_. ''..'') fs @ ts)"

text \<open>\<open>s.replace('.ts', '')\<close>: the first occurrence goes.\<close>

fun remove_first :: "string \<Rightarrow> string \<Rightarrow> string" where
  "remove_first sub [] = []"
| "remove_first sub (c # cs) =
     (if prefix sub (c # cs) then drop (length sub) (c # cs) else c # remove_first sub cs)"

subsection \<open>\<open>formatInterface\<close>\<close>

record shape =
  s_product :: string
  s_type :: "string option"
  s_name :: string
  s_fields :: "field list"

text \<open>The callback of \<open>externalIds.map\<close>: \<open>None\<close> is the \<open>undefined\<close> that it returns for
  an id without a reference.\<close>

definition import_of :: "reference list \<Rightarrow> shape \<Rightarrow> string \<Rightarrow> string option" where
  "import_of references reference i =
     (case find_reference references i of
        None \<Rightarrow> None
      | Some externalReference \<Rightarrow>
          (let selfReferencePath =
                 getReferencePath (s_product reference) (s_type reference) (s_name reference);
               externalReferencePath =
                 getReferencePath (r_product externalReference) (Some (r_type externalReference))
                   (r_name externalReference);
               importPath = remove_first ''.ts'' (relative (butlast selfReferencePath) externalReferencePath);
               importPath = (if \<not> prefix ''.'' importPath then ''./'' @ importPath else importPath)
           in Some (''import { '' @ r_name externalReference @ '' } from '' @ quote @ importPath @
                    quote @ '';'')))"

definition imports_of :: "reference list \<Rightarrow> shape \<Rightarrow> string option list" where
  "imports_of references reference =
     concat (map (\<lambda>field. map (import_of references reference) (getExternalIds (f_type field)))
                 (s_fields reference))"

text \<open>\<open>.filter(Boolean)\<close> and the filter that keeps the first of equal imports.\<close>

definition filter_Boolean :: "string option list \<Rightarrow> string list" where
  "filter_Boolean imports = concat (map (\<lambda>x. case x of Some v \<Rightarrow> if v \<noteq> [] then [v] else [] | None \<Rightarrow> []) imports)"

fun first_occurrences :: "'a list \<Rightarrow> 'a list \<Rightarrow> 'a list" where
  "first_occurrences seen [] = []"
| "first_occurrences seen (x # xs) =
     (if x \<in> set seen then first_occurrences seen xs else x # first_occurrences (x # seen) xs)"

definition imports_text :: "string option list \<Rightarrow> string" where
  "imports_text imports =
     (if imports \<noteq> []
      then join ''\<newline>'' (first_occurrences [] (filter_Boolean imports)) @ ''\<newline>\<newline>''
      else [])"

text \<open>
  \<open>uniqueFields\<close> is an object keyed by field name, here the list of its entries in the
  order of their creation. The keys are field names of the documentation; the names that
  every JavaScript object inherits (\<open>constructor\<close>, \<open>toString\<close>, ...) are not among them.
\<close>

definition merge_field :: "field \<Rightarrow> field \<Rightarrow> field" where
  "merge_field existing field =
     \<lparr> f_name = f_name field,
       f_type = [TypeList (f_type existing), TypeList (f_type field)],
       f_required = (f_required existing \<and> f_required field),
       f_description = f_description existing @ ''\<newline>'' @ f_description field \<rparr>"

definition add_unique :: "(string \<times> field) list \<Rightarrow> field \<Rightarrow> (string \<times> field) list" where
  "add_unique uniqueFields field =
     (case map_of uniqueFields (f_name field) of
        Some existing \<Rightarrow> AList.update (f_name field) (merge_field existing field) uniqueFields
      | None \<Rightarrow> uniqueFields @ [(f_name field, field)])"

definition unique_fields :: "field list \<Rightarrow> (string \<times> field) list" where
  "unique_fields fs = foldl add_unique [] fs"

text \<open>\<open>Object.values\<close>: the values of the keys that are array indices come first, by
  index; the others follow in the order of their creation.\<close>

definition object_values :: "(string \<times> 'a) list \<Rightarrow> 'a list" where
  "object_values entries =
     map snd
       (sort_key (\<lambda>e. the (to_index (fst e))) (filter (\<lambda>e. is_index_key (fst e)) entries) @
        filter (\<lambda>e. \<not> is_index_key (fst e)) entries)"

definition field_text :: "reference list \<Rightarrow> field \<Rightarrow> string" where
  "field_text references field =
     (if f_description field \<noteq> [] then getDescription (f_description field) else []) @
     ''  '' @ f_name field @ (if f_required field then [] else ''?'') @ '': '' @
     formatType references (f_type field) @ '';\<newline>''"

definition formatInterface :: "reference list \<Rightarrow> shape \<Rightarrow> bool \<Rightarrow> string" where
  "formatInterface references reference isExport =
     imports_text (imports_of references reference) @
     (if isExport then ''export '' else []) @
     ''interface '' @ s_name reference @ '' {\<newline>'' @
     concat (map (field_text references) (object_values (unique_fields (s_fields reference)))) @
     ''};\<newline>''"

subsection \<open>Types, enums and requests\<close>

text \<open>A written file: its path below \<open>generatedRoot\<close> and its contents.\<close>

type_synonym written = "string list \<times> string"

text \<open>\<open>for (const field of reference.fields)\<close> throws when the key is absent.\<close>

definition generateType :: "reference list \<Rightarrow> reference \<Rightarrow> js_error + written" where
  "generateType references reference =
     (case r_fields reference of
        None \<Rightarrow> Inl TypeError
      | Some fs \<Rightarrow>
          Inr (getReferencePath (r_product reference) (Some (r_type reference)) (r_name reference),
               formatInterface references
                 \<lparr> s_product = r_product reference, s_type = Some (r_type reference),
                   s_name = r_name reference, s_fields = fs \<rparr> True))"

definition formatEnum :: "string \<Rightarrow> enum_value list \<Rightarrow> bool \<Rightarrow> string" where
  "formatEnum name vs isExport =
     (if isExport then ''export '' else []) @
     ''enum '' @ name @ '' {\<newline>'' @
     concat (map (\<lambda>field.
                    (if v_description field \<noteq> [] then getDescription (v_description field) else []) @
                    ''  '' @ v_name field @ '' = '' @ quote @ v_name field @ quote @ '',\<newline>'') vs) @
     ''};\<newline>''"

definition generateEnum :: "reference \<Rightarrow> js_error + written" where
  "generateEnum reference =
     (case r_values reference of
        None \<Rightarrow> Inl TypeError
      | Some vs \<Rightarrow>
          Inr (getReferencePath (r_product reference) (Some (r_type reference)) (r_name reference),
               formatEnum (r_name reference) vs True))"

definition generateRequest :: "reference list \<Rightarrow> reference \<Rightarrow> js_error + written" where
  "generateRequest references reference =
     (case (r_params reference, r_body reference, r_query reference, r_headers reference) of
        (Some ps, Some bs, Some qs, Some hs) \<Rightarrow>
          Inr (getReferencePath (r_product reference) (Some (r_type reference)) (r_name reference),
               formatInterface references
                 \<lparr> s_product = r_product reference, s_type = None,
                   s_name = r_name reference, s_fields = ps @ bs @ qs @ hs \<rparr> True)
      | _ \<Rightarrow> Inl TypeError)"

subsection \<open>\<open>generateAPI\<close>\<close>

text \<open>\<open>name.replace(/Request$/, '')\<close>, then \<open>functionName[0].toLowerCase() +
  functionName.substring(1)\<close>, which throws on the empty name.\<close>

definition functionName :: "string \<Rightarrow> js_error + string" where
  "functionName name =
     (case (if suffix ''Request'' name then take (length name - length ''Request'') name else name) of
        [] \<Rightarrow> Inl TypeError
      | c # cs \<Rightarrow> Inr (lower_char c # cs))"

text \<open>\<open>request.path.replace(/\{(\w+)\}/g, ...)\<close>: the path with \<open>{}\<close> for every placeholder,
  and the names that the callback pushes to \<open>pathParams\<close>.\<close>

fun template_path :: "string \<Rightarrow> string" where
  "template_path [] = []"
| "template_path (c # cs) =
     (if c = CHR ''{'' \<and> takeWhile is_word cs \<noteq> [] \<and> prefix ''}'' (dropWhile is_word cs)
      then ''{}'' @ template_path (drop (length (takeWhile is_word cs) + 1) cs)
      else c # template_path cs)"

fun pathParams :: "string \<Rightarrow> string list" where
  "pathParams [] = []"
| "pathParams (c # cs) =
     (if c = CHR ''{'' \<and> takeWhile is_word cs \<noteq> [] \<and> prefix ''}'' (dropWhile is_word cs)
      then takeWhile is_word cs # pathParams (drop (length (takeWhile is_word cs) + 1) cs)
      else pathParams cs)"

definition queryParams_text :: "field list \<Rightarrow> string" where
  "queryParams_text qs =
     (if qs \<noteq> []
      then (let hasMany = length qs > 1
            in ''  const queryParams = client.queryParams({'' @
               concat (map (\<lambda>query.
                              if hasMany
                              then ''\<newline>    '' @ f_name query @ '': request.'' @ f_name query @ '',''
                              else '' '' @ f_name query @ '': request.'' @ f_name query @ '' '') qs) @
               (if hasMany then ''\<newline>  '' else []) @
               ''});\<newline>'')
      else [])"

text \<open>The body of the second loop for one request; a request without \<open>path\<close>, \<open>query\<close>,
  \<open>method\<close> or \<open>body\<close> is a \<open>TypeError\<close>.\<close>

definition api_function :: "reference \<Rightarrow> reference option \<Rightarrow> reference \<Rightarrow> js_error + string" where
  "api_function ty error request =
     (case functionName (r_name request) of
        Inl e \<Rightarrow> Inl e
      | Inr fname \<Rightarrow>
          (case (r_path request, r_query request, r_method request, r_body request) of
             (Some p, Some qs, Some m, Some bs) \<Rightarrow>
               Inr (''export async function '' @ fname @ ''<R = '' @ r_name ty @
                    ''>(client: RapydClient, request: '' @ r_name request @ ''): Promise<R> {\<newline>'' @
                    queryParams_text qs @
                    ''  const response = await client.'' @ toLowerCase m @ ''('' @ quote @
                    template_path p @ quote @
                    (if qs \<noteq> [] then '' + queryParams'' else []) @
                    (if pathParams p \<noteq> []
                     then '', '' @ join '', '' (map (\<lambda>param. ''request.'' @ param) (pathParams p))
                     else []) @
                    (if bs \<noteq> []
                     then '', {\<newline>'' @
                          concat (map (\<lambda>param. ''    '' @ f_name param @ '': request.'' @ f_name param @
                                                '',\<newline>'') bs) @
                          ''  }''
                     else []) @
                    '');\<newline>'' @
                    ''  return await response.data<R, '' @
                    (case error of Some e \<Rightarrow> r_name e | None \<Rightarrow> ''Error'') @ ''>();\<newline>'' @
                    ''}\<newline>\<newline>'')
           | _ \<Rightarrow> Inl TypeError))"

definition generateAPI ::
  "reference \<Rightarrow> reference list \<Rightarrow> reference option \<Rightarrow> js_error + written" where
  "generateAPI ty requests error =
     (case all_ok (map (api_function ty error) requests) of
        Inl e \<Rightarrow> Inl e
      | Inr functions \<Rightarrow>
          Inr ([r_product ty, ''apis'', r_name ty @ ''.ts''],
               ''import { RapydClient } from '' @ quote @ ''../../../core/RapydClient'' @ quote @
               '';\<newline>'' @
               ''import { '' @ r_name ty @ '' } from '' @ quote @ ''../types/'' @ r_name ty @ quote @
               '';\<newline>'' @
               (case error of
                  Some e \<Rightarrow>
                    ''import { '' @ r_name e @ '' } from '' @ quote @ ''../enums/'' @ r_name e @ quote @
                    '';\<newline>''
                | None \<Rightarrow> []) @
               concat (map (\<lambda>request.
                              ''import { '' @ r_name request @ '' } from '' @ quote @ ''../requests/'' @
                              r_name request @ quote @ '';\<newline>'') requests) @
               ''\<newline>'' @
               concat functions))"

subsection \<open>The run of the emitter\<close>

text \<open>
  The callback of \<open>references.map\<close> for one reference: the files that it writes and the
  error that ends it, if any. A type is written before its API module is built.
\<close>

definition emit :: "reference list \<Rightarrow> reference \<Rightarrow> written list \<times> js_error option" where
  "emit references reference =
     (if r_type reference = ''type'' then
        (case generateType references reference of
           Inl e \<Rightarrow> ([], Some e)
         | Inr f \<Rightarrow>
             (let children = filter (\<lambda>child. r_parent child = Some (r_id reference)) references
              in if children \<noteq> []
                 then (let methods = filter (\<lambda>child. r_type child = ''request'') children;
                           error = find (\<lambda>child. r_type child = ''enum'') children
                       in case generateAPI reference methods error of
                            Inl e \<Rightarrow> ([f], Some e)
                          | Inr a \<Rightarrow> ([f, a], None))
                 else ([f], None)))
      else if r_type reference = ''enum'' then
        (case generateEnum reference of Inl e \<Rightarrow> ([], Some e) | Inr f \<Rightarrow> ([f], None))
      else if r_type reference = ''request'' then
        (case generateRequest references reference of Inl e \<Rightarrow> ([], Some e) | Inr f \<Rightarrow> ([f], None))
      else ([], None))"

definition generate :: "reference list \<Rightarrow> (written list \<times> js_error option) list" where
  "generate references = map (emit references) references"

section \<open>The client's response\<close>

text \<open>
  A parsed JSON value, and \<open>Undefined\<close> for a key that an object does not have.
  \<open>JSON.parse\<close> is again a parameter: \<open>None\<close> is its \<open>SyntaxError\<close>.
\<close>

datatype json =
    Undefined | Null | Boolean bool | Number int | String string | Array "json list"
  | Object "(string \<times> json) list"

record rapyd_error =
  message :: json
  code :: json
  operationId :: json

datatype thrown = Thrown js_error | Error string | RapydError rapyd_error

text \<open>The value of a key: \<open>undefined\<close> when the value is no object or has no such key.
  None of the keys that the client reads (\<open>status\<close>, \<open>message\<close>, \<open>error_code\<close>,
  \<open>operation_id\<close>, \<open>data\<close>) is a property of a string, a number, a boolean or an array.\<close>

definition member_of :: "json \<Rightarrow> string \<Rightarrow> json" where
  "member_of v k =
     (case v of
        Object entries \<Rightarrow> (case map_of entries k of Some x \<Rightarrow> x | None \<Rightarrow> Undefined)
      | _ \<Rightarrow> Undefined)"

text \<open>Reading a key, as in \<open>const { status } = value\<close> and \<open>status.status\<close>: a \<open>TypeError\<close> on
  \<open>undefined\<close> and \<open>null\<close>.\<close>

definition get_key :: "json \<Rightarrow> string \<Rightarrow> thrown + json" where
  "get_key v k =
     (if v = Undefined \<or> v = Null then Inl (Thrown TypeError) else Inr (member_of v k))"

datatype header = Single string | Multiple "string list"

record response =
  res_headers :: "(string \<times> header) list"
  res_text :: string

definition getHeader :: "response \<Rightarrow> string \<Rightarrow> string option" where
  "getHeader res name =
     (case map_of (res_headers res) (toLowerCase name) of
        None \<Rightarrow> None
      | Some (Single h) \<Rightarrow> if h = [] then None else Some h
      | Some (Multiple hs) \<Rightarrow> (case hs of [] \<Rightarrow> None | h # _ \<Rightarrow> Some h))"

definition response_json :: "(string \<Rightarrow> json option) \<Rightarrow> response \<Rightarrow> thrown + json" where
  "response_json JSON_parse res =
     (case getHeader res ''Content-Type'' of
        None \<Rightarrow> Inl (Error ''Response is not valid JSON.'')
      | Some contentType \<Rightarrow>
          if \<not> prefix ''application/json'' contentType
          then Inl (Error ''Response is not valid JSON.'')
          else (case JSON_parse (res_text res) of
                  None \<Rightarrow> Inl (Thrown SyntaxError)
                | Some v \<Rightarrow> Inr v))"

text \<open>\<open>error\<close> returns the \<open>RapydError\<close> or \<open>undefined\<close>. The record holds the three
  arguments of the constructor, \<open>status.message\<close>, \<open>status.error_code\<close> and
  \<open>status.operation_id\<close>, as the payload has them (\<open>Error\<close> keeps a message that is a
  string as it is).\<close>

definition response_error :: "(string \<Rightarrow> json option) \<Rightarrow> response \<Rightarrow> thrown + rapyd_error option" where
  "response_error JSON_parse res =
     (case response_json JSON_parse res of
        Inl e \<Rightarrow> Inl e
      | Inr payload \<Rightarrow>
          (case get_key payload ''status'' of
             Inl e \<Rightarrow> Inl e
           | Inr status \<Rightarrow>
               (case get_key status ''status'' of
                  Inl e \<Rightarrow> Inl e
                | Inr s \<Rightarrow>
                    if s = String ''ERROR''
                    then (case (get_key status ''message'', get_key status ''error_code'',
                                get_key status ''operation_id'') of
                            (Inr m, Inr c, Inr operation) \<Rightarrow>
                              Inr (Some \<lparr> message = m, code = c, operationId = operation \<rparr>)
                          | _ \<Rightarrow> Inl (Thrown TypeError))
                    else Inr None)))"

definition response_data :: "(string \<Rightarrow> json option) \<Rightarrow> response \<Rightarrow> thrown + json" where
  "response_data JSON_parse res =
     (case response_error JSON_parse res of
        Inl e \<Rightarrow> Inl e
      | Inr (Some err) \<Rightarrow> Inl (RapydError err)
      | Inr None \<Rightarrow>
          (case response_json JSON_parse res of
             Inl e \<Rightarrow> Inl e
           | Inr payload \<Rightarrow> get_key payload ''data''))"

section \<open>The customer scenario\<close>

text \<open>
  One page of the product \<open>collect\<close> with one node: a basic node titled \<open>Customer Object\<close>
  whose body holds a parameters block with the single row \<open>id\<close>, \<open>string\<close>,
  \<open>starting with **cus_**\<close>, and whose only child is the endpoint \<open>Get Customer\<close>, a \<open>GET\<close> of
  \<open>/customers/:id\<close> with the path parameter \<open>id\<close>, documented as not required. No fix
  applies, and \<open>JSON.parse\<close> reads the text of the block.
\<close>

definition scenario_json :: string where
  \<open>scenario_json =
     ''{"data":{"h-0":"Name","h-1":"Type","h-2":"Description","0-0":"id","0-1":"string","0-2":"starting with **cus_**"},"cols":3,"rows":1}''\<close>

definition scenario_block :: block where
  "scenario_block =
     \<lparr> b_data = [(''h-0'', ''Name''), (''h-1'', ''Type''), (''h-2'', ''Description''),
                  (''0-0'', ''id''), (''0-1'', ''string''), (''0-2'', ''starting with **cus_**'')],
       b_rows = 1 \<rparr>"

definition scenario_parse :: parse where
  "scenario_parse json = (if json = scenario_json then Some scenario_block else None)"

definition no_fixes :: fixes_json where
  "no_fixes slug = None"

definition get_customer :: doc where
  "get_customer =
     Doc ''get-customer'' ''Get Customer'' ''endpoint'' [] None
       (Some \<lparr> a_url = ''/customers/:id'', a_method = ''get'',
               a_params = [\<lparr> p_name = ''id'', p_in = ''path'', p_type = ''string'',
                             p_desc = ''ID of the customer.'', p_required = False \<rparr>] \<rparr>)
       None"

definition customer_object :: doc where
  "customer_object =
     Doc ''customer-object'' ''Customer Object'' ''basic''
       (''[block:parameters]'' @ scenario_json @ ''[/block]'') None None (Some [get_customer])"

definition collect :: product where
  "collect = \<lparr> pr_id = ''collect'', pr_urls = [''https://docs.rapyd.net/reference''] \<rparr>"

text \<open>The two references of the scenario, as \<open>references.json\<close> holds them.\<close>

definition customer_type :: reference where
  "customer_type =
     \<lparr> r_product = ''collect'', r_parent = None, r_id = ''customer-object'', r_type = ''type'',
       r_name = ''Customer'', r_description = Some [],
       r_fields =
         Some [\<lparr> f_name = ''id'', f_type = [IR ''string'' (Some ''cus_'') None None None None],
                 f_required = True, f_description = ''starting with **cus_**'' \<rparr>],
       r_values = None, r_method = None, r_path = None, r_params = None, r_body = None,
       r_headers = None, r_query = None \<rparr>"

definition get_customer_request :: reference where
  "get_customer_request =
     \<lparr> r_product = ''collect'', r_parent = Some ''customer-object'', r_id = ''get-customer'',
       r_type = ''request'', r_name = ''GetCustomerRequest'', r_description = None,
       r_fields = None, r_values = None, r_method = Some ''GET'',
       r_path = Some ''/customers/{id}'',
       r_params =
         Some [\<lparr> f_name = ''id'', f_type = [IR ''string'' None None None None None],
                 f_required = True, f_description = ''ID of the customer.'' \<rparr>],
       r_body = Some [], r_headers = Some [], r_query = Some [] \<rparr>"

text \<open>A second endpoint: a url with a query string, a path parameter that is documented as
  not required, and three headers, two of them in the exclusion list.\<close>

definition payment_api :: api where
  "payment_api =
     \<lparr> a_url = ''/customer/:id/payment?expand=card'', a_method = ''get'',
       a_params =
         [\<lparr> p_name = ''id'', p_in = ''path'', p_type = ''string'', p_desc = ''ID of the customer.'',
            p_required = False \<rparr>,
          \<lparr> p_name = ''access_key'', p_in = ''header'', p_type = ''string'', p_desc = ''Access key.'',
            p_required = True \<rparr>,
          \<lparr> p_name = ''Content-Type'', p_in = ''header'', p_type = ''string'', p_desc = ''Media type.'',
            p_required = True \<rparr>,
          \<lparr> p_name = ''X-Custom'', p_in = ''header'', p_type = ''string'', p_desc = ''Custom header.'',
            p_required = False \<rparr>] \<rparr>"




section \<open>The slugs of the input\<close>

text \<open>The slugs of a node and of the nodes below it, in the order in which
  \<open>handleReference\<close> visits them.\<close>

fun slugs :: "doc \<Rightarrow> string list" where
  "slugs (Doc slug title ty body excerpt a children) =
     slug # (case children of Some cs \<Rightarrow> concat (map slugs cs) | None \<Rightarrow> [])"


section \<open>Further scenarios\<close>




text \<open>A second page: the product \<open>wallet\<close> with one type node and no children.\<close>


definition wallet :: product where
  "wallet = \<lparr> pr_id = ''wallet'', pr_urls = [''https://docs.rapyd.net/wallet/reference''] \<rparr>"

definition wallet_object :: doc where
  "wallet_object =
     Doc ''wallet-object'' ''Wallet Object'' ''basic''
       (''[block:parameters]'' @ scenario_json @ ''[/block]'') None None None"

definition extracted_wallet :: reference where
  "extracted_wallet =
     \<lparr> r_product = ''wallet'', r_parent = None, r_id = ''wallet-object'', r_type = ''type'',
       r_name = ''Wallet'', r_description = Some [],
       r_fields =
         Some [\<lparr> f_name = ''id'', f_type = [IR ''string'' (Some ''cus_'') None None None None],
                 f_required = True, f_description = ''starting with **cus_**'' \<rparr>],
       r_values = None, r_method = None, r_path = None, r_params = None, r_body = None,
       r_headers = None, r_query = None \<rparr>"


text \<open>Three responses: an error payload and a success payload of the API, which
  \<open>rapyd_parse\<close> reads as \<open>JSON.parse\<close> does, and the page of a gateway.\<close>


definition error_body :: string where
  \<open>error_body =
     ''{"status":{"error_code":"ERROR_GET_CUSTOMER","status":"ERROR","message":"The customer was not found.","operation_id":"a1b2c3"}}''\<close>

definition error_payload :: json where
  "error_payload =
     Object [(''status'',
              Object [(''error_code'', String ''ERROR_GET_CUSTOMER''), (''status'', String ''ERROR''),
                      (''message'', String ''The customer was not found.''),
                      (''operation_id'', String ''a1b2c3'')])]"

definition success_body :: string where
  \<open>success_body =
     ''{"status":{"error_code":"","status":"SUCCESS","message":"","operation_id":"d4e5f6"},"data":{"id":"cus_1"}}''\<close>

definition success_payload :: json where
  "success_payload =
     Object [(''status'',
              Object [(''error_code'', String []), (''status'', String ''SUCCESS''),
                      (''message'', String []), (''operation_id'', String ''d4e5f6'')]),
             (''data'', Object [(''id'', String ''cus_1'')])]"

definition rapyd_parse :: "string \<Rightarrow> json option" where
  "rapyd_parse text =
     (if text = error_body then Some error_payload
      else if text = success_body then Some success_payload
      else None)"

definition json_response :: "string \<Rightarrow> response" where
  "json_response text =
     \<lparr> res_headers = [(''content-type'', Single ''application/json; charset=utf-8'')],
       res_text = text \<rparr>"


section \<open>Properties\<close>

subsection \<open>Type inference\<close>

text \<open>
  C7. For the raw type \<open>string\<close> and the description
  \<open>One of the following:\n- **active**\n- **closed**\<close>, \<open>getTypes\<close> returns a single string
  node whose \<open>possibleValues\<close> are \<open>active\<close> and \<open>closed\<close>, in that order, and which carries
  nothing else.
\<close>

theorem getTypes_literal_union:
  "getTypes ''string'' ''One of the following:\<newline>- **active**\<newline>- **closed**'' =
     [IR ''string'' None (Some [''active'', ''closed'']) None None None]"
  by code_simp

subsection \<open>The pipeline on the customer scenario\<close>

text \<open>
  C1. On the customer scenario the extraction yields the type \<open>Customer\<close> and the request
  \<open>GetCustomerRequest\<close>, and the emitter writes three files from them: the interface
  \<open>Customer\<close> whose field is rendered as \<open>id: `cus_${string}`;\<close>, the API module whose function
  \<open>getCustomer\<close> calls \<open>client.get('/customers/{}', request.id)\<close> and returns
  \<open>response.data<R, Error>()\<close>, and the interface \<open>GetCustomerRequest\<close> whose field \<open>id\<close> has
  no \<open>?\<close> marker.
\<close>

theorem customer_end_to_end:
  "extraction no_fixes scenario_parse [(collect, [customer_object])] =
     Inr [customer_type, get_customer_request] \<and>
   generate [customer_type, get_customer_request] =
     [([([''collect'', ''types'', ''Customer.ts''],
         ''export interface Customer {\<newline>'' @
         ''  /**\<newline>'' @
         ''   * starting with **cus_**\<newline>'' @
         ''   */\<newline>'' @
         ''  id: `cus_${string}`;\<newline>'' @
         ''};\<newline>''),
        ([''collect'', ''apis'', ''Customer.ts''],
         ''import { RapydClient } from '' @ quote @ ''../../../core/RapydClient'' @ quote @ '';\<newline>'' @
         ''import { Customer } from '' @ quote @ ''../types/Customer'' @ quote @ '';\<newline>'' @
         ''import { GetCustomerRequest } from '' @ quote @ ''../requests/GetCustomerRequest'' @ quote @
         '';\<newline>'' @
         ''\<newline>'' @
         ''export async function getCustomer<R = Customer>(client: RapydClient, request: GetCustomerRequest): Promise<R> {\<newline>'' @
         ''  const response = await client.get('' @ quote @ ''/customers/{}'' @ quote @ '', request.id);\<newline>'' @
         ''  return await response.data<R, Error>();\<newline>'' @
         ''}\<newline>\<newline>'')],
       None),
      ([([''collect'', ''requests'', ''GetCustomerRequest.ts''],
         ''export interface GetCustomerRequest {\<newline>'' @
         ''  /**\<newline>'' @
         ''   * ID of the customer.\<newline>'' @
         ''   */\<newline>'' @
         ''  id: string;\<newline>'' @
         ''};\<newline>'')],
       None)]"
  by code_simp

subsection \<open>Requests\<close>


lemma colon_to_brace_plain: "CHR '':'' \<notin> set s \<Longrightarrow> colon_to_brace s = s"
  by (induction s) auto

lemma colon_to_brace_param:
  assumes "CHR '':'' \<notin> set pre" and "name \<noteq> []" and "\<forall>c \<in> set name. is_word c"
    and "rest = [] \<or> \<not> is_word (hd rest)"
  shows "colon_to_brace (pre @ '':'' @ name @ rest) = pre @ ''{'' @ name @ ''}'' @ colon_to_brace rest"
  using assms(1)
proof (induction pre)
  case Nil
  have tw: "takeWhile is_word (name @ rest) = name"
    using assms(3,4) by (cases rest) (auto simp: takeWhile_append2 takeWhile_eq_all_conv)
  then have "drop (length (takeWhile is_word (name @ rest))) (name @ rest) = rest"
    by simp
  with tw assms(2) show ?case by simp
next
  case (Cons c pre)
  then show ?case by auto
qed

lemma getParamsIn_names:
  "map f_name (getParamsIn a location) = map p_name (filter (\<lambda>p. p_in p = location) (a_params a))"
  by (simp add: getParamsIn_def comp_def)

lemma spread_None: "spread None r = r"
  by (simp add: spread_def)



lemma spread_headers: "\<forall>x. fx = Some x \<longrightarrow> x_headers x = None \<Longrightarrow> r_headers (spread fx r) = r_headers r"
  by (cases fx) (auto simp: spread_def or_else_def)



lemma excludeHeaders_set:
  "set excludeHeaders =
     {''access_key'', ''salt'', ''signature'', ''timestamp'', ''idempotency'', ''content-type'',
      ''content_type''}"
  by (simp add: excludeHeaders_def)

text \<open>
  C6. For an endpoint node with a parent whose title yields a request name, and unless a
  fix replaces the key, the \<open>headers\<close> of the appended request are the parameters declared
  in \<open>header\<close> whose name in lower case is none of \<open>access_key\<close>, \<open>salt\<close>, \<open>signature\<close>,
  \<open>timestamp\<close>, \<open>idempotency\<close>, \<open>content-type\<close> and \<open>content_type\<close>: those are dropped, every
  other header is kept, in the documented order.
\<close>

theorem endpoint_headers:
  assumes wf: "request_name (remove_suffixes 0 title) = Inr name"
    and nofix: "\<forall>x. fixes slug = Some x \<longrightarrow> x_headers x = None"
  shows "\<exists>r hs.
           handleReference fixes parse product
             (Doc slug title ''endpoint'' body excerpt (Some a) children) (Some parent) references =
             Inr (references @ [r]) \<and>
           r_headers r = Some hs \<and>
           hs = filter (\<lambda>h. toLowerCase (f_name h) \<notin>
                          {''access_key'', ''salt'', ''signature'', ''timestamp'', ''idempotency'',
                           ''content-type'', ''content_type''})
                  (getParamsIn a ''header'') \<and>
           map f_name hs =
             filter (\<lambda>n. toLowerCase n \<notin>
                         {''access_key'', ''salt'', ''signature'', ''timestamp'', ''idempotency'',
                          ''content-type'', ''content_type''})
               (map p_name (filter (\<lambda>p. p_in p = ''header'') (a_params a)))"
proof -
  let ?hs = "filter (\<lambda>header. toLowerCase (f_name header) \<notin> set excludeHeaders)
               (getParamsIn a ''header'')"
  let ?r = "\<lparr> r_product = pr_id product, r_parent = Some (d_slug parent), r_id = slug,
              r_type = ''request'', r_name = name, r_description = excerpt, r_fields = None,
              r_values = None, r_method = Some (toUpperCase (a_method a)),
              r_path = Some (colon_to_brace (url_path (a_url a))),
              r_params = Some (map (\<lambda>param. param\<lparr> f_required := True \<rparr>) (getParamsIn a ''path'')),
              r_body = Some (getParamsIn a ''body''),
              r_headers = Some ?hs,
              r_query = Some (getParamsIn a ''query'') \<rparr>"
  have req: "request_of (pr_id product)
               (Doc slug (remove_suffixes 0 title) ''endpoint'' body excerpt (Some a) children)
               (d_slug parent) = Inr ?r"
    using wf by (simp add: request_of_def)
  have run: "handleReference fixes parse product
               (Doc slug title ''endpoint'' body excerpt (Some a) children) (Some parent) references =
             Inr (references @ [spread (fixes slug) ?r])"
    using req by (simp add: addRequest_def Let_def)
  have hs: "r_headers (spread (fixes slug) ?r) = Some ?hs"
    using nofix by (simp add: spread_headers)
  have names: "map f_name ?hs =
      filter (\<lambda>n. toLowerCase n \<notin> set excludeHeaders)
        (map p_name (filter (\<lambda>p. p_in p = ''header'') (a_params a)))"
    by (simp add: getParamsIn_names [symmetric] filter_map comp_def)
  from run hs names show ?thesis
    unfolding excludeHeaders_set by blast
qed

text \<open>Of the documented headers \<open>access_key\<close>, \<open>Content-Type\<close> and \<open>X-Custom\<close> only
  \<open>X-Custom\<close> is kept.\<close>

theorem endpoint_headers_witness:
  "request_name (remove_suffixes 0 ''Get Payment'') = Inr ''GetPaymentRequest'' \<and>
   (\<exists>r hs.
      handleReference no_fixes scenario_parse collect
        (Doc ''get-payment'' ''Get Payment'' ''endpoint'' [] None (Some payment_api) None)
        (Some customer_object) [] = Inr ([] @ [r]) \<and>
      r_headers r = Some hs \<and> map f_name hs = [''X-Custom''])"
proof -
  have wf: "request_name (remove_suffixes 0 ''Get Payment'') = Inr ''GetPaymentRequest''"
    by code_simp
  have nofix: "\<forall>x. no_fixes ''get-payment'' = Some x \<longrightarrow> x_headers x = None"
    by (simp add: no_fixes_def)
  have n: "filter (\<lambda>n. toLowerCase n \<notin>
                         {''access_key'', ''salt'', ''signature'', ''timestamp'', ''idempotency'',
                          ''content-type'', ''content_type''})
               (map p_name (filter (\<lambda>p. p_in p = ''header'') (a_params payment_api))) = [''X-Custom'']"
    by code_simp
  obtain r hs where
    "handleReference no_fixes scenario_parse collect
        (Doc ''get-payment'' ''Get Payment'' ''endpoint'' [] None (Some payment_api) None)
        (Some customer_object) [] = Inr ([] @ [r])"
    "r_headers r = Some hs" "map f_name hs = [''X-Custom'']"
    using endpoint_headers
      [of "''Get Payment''" "''GetPaymentRequest''" no_fixes "''get-payment''" scenario_parse
        collect "[]" None payment_api None customer_object "[]", OF wf nofix]
    unfolding n by auto
  then show ?thesis
    using wf by auto
qed

subsection \<open>Fields of an emitted shape\<close>




















subsection \<open>Dangling references\<close>







subsection \<open>The list of references only grows\<close>

lemma addType_append:
  "addType fixes parse product reference references =
     map_sum (\<lambda>e. e) ((@) references) (addType fixes parse product reference [])"
  by (simp add: addType_def split: option.split sum.split)

lemma addErrors_append:
  "addErrors fixes product reference parent references =
     references @ addErrors fixes product reference parent []"
  by (simp add: addErrors_def)

lemma addRequest_append:
  "addRequest fixes product reference parent references =
     map_sum (\<lambda>e. e) ((@) references) (addRequest fixes product reference parent [])"
  by (simp add: addRequest_def split: sum.split)

lemma map_sum_append_assoc:
  "map_sum (\<lambda>e. e) ((@) (xs @ ys)) r = map_sum (\<lambda>e. e) ((@) xs) (map_sum (\<lambda>e. e) ((@) ys) r)"
  by (cases r) simp_all

lemma handleChildren_append_aux:
  assumes "\<And>c parent references. c \<in> set cs \<Longrightarrow>
             handleReference fixes parse product c parent references =
               map_sum (\<lambda>e. e) ((@) references) (handleReference fixes parse product c parent [])"
  shows "handleChildren fixes parse product cs parent references =
           map_sum (\<lambda>e. e) ((@) references) (handleChildren fixes parse product cs parent [])"
  using assms
proof (induction cs arbitrary: references)
  case Nil
  then show ?case by simp
next
  case (Cons c cs)
  have c: "handleReference fixes parse product c parent references =
             map_sum (\<lambda>e. e) ((@) references) (handleReference fixes parse product c parent [])"
    by (rule Cons.prems) simp
  have cs: "\<And>references. handleChildren fixes parse product cs parent references =
             map_sum (\<lambda>e. e) ((@) references) (handleChildren fixes parse product cs parent [])"
    by (rule Cons.IH) (rule Cons.prems, simp)
  show ?case
  proof (cases "handleReference fixes parse product c parent []")
    case (Inl e)
    with c show ?thesis by simp
  next
    case (Inr new)
    have "handleChildren fixes parse product (c # cs) parent references =
        handleChildren fixes parse product cs parent (references @ new)"
      using c Inr by simp
    also have "\<dots> = map_sum (\<lambda>e. e) ((@) (references @ new)) (handleChildren fixes parse product cs parent [])"
      by (rule cs)
    also have "\<dots> = map_sum (\<lambda>e. e) ((@) references) (map_sum (\<lambda>e. e) ((@) new) (handleChildren fixes parse product cs parent []))"
      by (rule map_sum_append_assoc)
    also have "\<dots> = map_sum (\<lambda>e. e) ((@) references) (handleChildren fixes parse product cs parent new)"
      by (simp only: cs [of new])
    also have "\<dots> = map_sum (\<lambda>e. e) ((@) references) (handleChildren fixes parse product (c # cs) parent [])"
      using Inr by simp
    finally show ?thesis .
  qed
qed


lemma handleReference_append:
  "handleReference fixes parse product d parent references =
     map_sum (\<lambda>e. e) ((@) references) (handleReference fixes parse product d parent [])"
proof (induction d arbitrary: parent references)
  case (Doc slug title0 ty body excerpt a children)
  have ch: "\<And>cs parent references. children = Some cs \<Longrightarrow>
      handleChildren fixes parse product cs parent references =
        map_sum (\<lambda>e. e) ((@) references) (handleChildren fixes parse product cs parent [])"
    apply (rule handleChildren_append_aux)
    apply (rule Doc.IH)
     apply simp
    apply assumption
    done
  let ?t = "remove_suffixes 0 title0"
  let ?reference = "Doc slug ?t ty body excerpt a children"
  note at = addType_append [where references = references]
  note ar = addRequest_append [where references = references]
  note ae = addErrors_append [where references = references]
  show ?case
  proof (cases "ty = ''basic'' \<and> \<not> js_includes ?t ''Sequence'' \<and> suffix ''Object'' ?t")
    case False
    then show ?thesis
      by (cases "ty = ''basic''"; cases "js_includes ?t ''Sequence''"; cases "suffix ''Object'' ?t";
          simp add: Let_def ar ae split: option.split)
  next
    case True
    then have ty: "ty = ''basic''"
      and t: "\<not> js_includes ?t ''Sequence''" "suffix ''Object'' ?t"
      by simp_all
    have unfold: "\<And>references. handleReference fixes parse product
          (Doc slug title0 ty body excerpt a children) parent references =
        (case addType fixes parse (pr_id product) ?reference references of
           Inl e \<Rightarrow> Inl e
         | Inr references' \<Rightarrow>
             (case children of
                Some cs \<Rightarrow> handleChildren fixes parse product cs (Some ?reference) references'
              | None \<Rightarrow> Inr references'))"
      using t unfolding ty by (simp add: Let_def)
    show ?thesis
    proof (cases "addType fixes parse (pr_id product) ?reference []")
      case (Inl e)
      then show ?thesis
        unfolding unfold by (subst at) simp
    next
      case (Inr new)
      show ?thesis
      proof (cases children)
        case None
        with Inr show ?thesis
          unfolding unfold by (subst at) simp
      next
        case (Some cs)
        have "handleChildren fixes parse product cs (Some ?reference) (references @ new) =
            map_sum (\<lambda>e. e) ((@) references) (handleChildren fixes parse product cs (Some ?reference) new)"
          by (subst ch [OF Some], subst (2) ch [OF Some]) (rule map_sum_append_assoc)
        with Inr Some show ?thesis
          unfolding unfold by (subst at) simp
      qed
    qed
  qed
qed

lemma handleChildren_append:
  "handleChildren fixes parse product cs parent references =
     map_sum (\<lambda>e. e) ((@) references) (handleChildren fixes parse product cs parent [])"
  by (rule handleChildren_append_aux) (rule handleReference_append)

lemma handlePages_append:
  "handlePages fixes parse pages references =
     map_sum (\<lambda>e. e) ((@) references) (handlePages fixes parse pages [])"
proof (induction pages arbitrary: references)
  case Nil
  then show ?case by simp
next
  case (Cons page pages)
  obtain product docs where page: "page = (product, docs)"
    by (cases page)
  note ch = handleChildren_append [of "fixes" parse product docs None references]
  show ?case
  proof (cases "handleChildren fixes parse product docs None []")
    case (Inl e)
    with ch page show ?thesis by simp
  next
    case (Inr new)
    have "handlePages fixes parse pages (references @ new) =
        map_sum (\<lambda>e. e) ((@) references) (handlePages fixes parse pages new)"
      by (subst Cons.IH, subst (2) Cons.IH) (rule map_sum_append_assoc)
    with Inr ch page show ?thesis by simp
  qed
qed

subsection \<open>Ids\<close>

lemma spread_id: "\<forall>x. fx = Some x \<longrightarrow> x_id x = None \<Longrightarrow> r_id (spread fx r) = r_id r"
  by (cases fx) (auto simp: spread_def)

lemma addType_ids:
  assumes "\<forall>slug x. fixes slug = Some x \<longrightarrow> x_id x = None"
    and "addType fixes parse product reference [] = Inr new"
  shows "subseq (map r_id new) [d_slug reference]"
proof -
  from assms(1) have "\<forall>x. fixes (d_slug reference) = Some x \<longrightarrow> x_id x = None"
    by simp
  from spread_id [OF this] assms(2) show ?thesis
    by (auto simp: addType_def split: option.splits sum.splits)
qed

lemma addErrors_ids:
  assumes "\<forall>slug x. fixes slug = Some x \<longrightarrow> x_id x = None"
  shows "map r_id (addErrors fixes product reference parent []) = [d_slug reference]"
proof -
  from assms have "\<forall>x. fixes (d_slug reference) = Some x \<longrightarrow> x_id x = None"
    by simp
  from spread_id [OF this] show ?thesis
    by (simp add: addErrors_def)
qed

lemma addRequest_ids:
  assumes "\<forall>slug x. fixes slug = Some x \<longrightarrow> x_id x = None"
    and "addRequest fixes product reference parent [] = Inr new"
  shows "map r_id new = [d_slug reference]"
proof -
  from assms(1) have "\<forall>x. fixes (d_slug reference) = Some x \<longrightarrow> x_id x = None"
    by simp
  from spread_id [OF this] assms(2) show ?thesis
    by (auto simp: addRequest_def request_of_def split: option.splits sum.splits)
qed

lemma handleChildren_ids_aux:
  assumes "\<And>c parent new. c \<in> set cs \<Longrightarrow>
             handleReference fixes parse product c parent [] = Inr new \<Longrightarrow>
             subseq (map r_id new) (slugs c)"
    and "handleChildren fixes parse product cs parent [] = Inr new"
  shows "subseq (map r_id new) (concat (map slugs cs))"
  using assms
proof (induction cs arbitrary: new)
  case Nil
  then show ?case by simp
next
  case (Cons c cs)
  from Cons.prems(2) obtain n1 where n1: "handleReference fixes parse product c parent [] = Inr n1"
    and rest: "handleChildren fixes parse product cs parent n1 = Inr new"
    by (auto split: sum.splits)
  from rest obtain n2 where n2: "handleChildren fixes parse product cs parent [] = Inr n2"
    and new: "new = n1 @ n2"
    by (subst (asm) handleChildren_append)
       (cases "handleChildren fixes parse product cs parent []"; auto)
  have "subseq (map r_id n1) (slugs c)"
    using n1 by (intro Cons.prems(1)) simp_all
  moreover have "subseq (map r_id n2) (concat (map slugs cs))"
    using n2 by (intro Cons.IH) (auto intro: Cons.prems(1))
  ultimately show ?case
    unfolding new by (simp add: list_emb_append_mono)
qed

lemma handleReference_ids:
  assumes nofix: "\<forall>slug x. fixes slug = Some x \<longrightarrow> x_id x = None"
  shows "handleReference fixes parse product d parent [] = Inr new \<Longrightarrow>
         subseq (map r_id new) (slugs d)"
proof (induction d arbitrary: parent new)
  case (Doc slug title0 ty body excerpt a children)
  let ?t = "remove_suffixes 0 title0"
  let ?reference = "Doc slug ?t ty body excerpt a children"
  have ch: "\<And>cs parent new. children = Some cs \<Longrightarrow>
      handleChildren fixes parse product cs parent [] = Inr new \<Longrightarrow>
      subseq (map r_id new) (concat (map slugs cs))"
    by (rule handleChildren_ids_aux) (auto intro: Doc.IH)
  note ae = addErrors_ids [OF nofix, of "pr_id product" ?reference]
  show ?case
  proof (cases "ty = ''basic'' \<and> \<not> js_includes ?t ''Sequence'' \<and> suffix ''Object'' ?t")
    case False
    have "new = [] \<or> map r_id new = [slug]"
      using False Doc.prems ae addRequest_ids [OF nofix, of "pr_id product" ?reference _ new]
      by (cases "ty = ''basic''"; cases "js_includes ?t ''Sequence''"; cases "suffix ''Object'' ?t";
          auto simp: Let_def split: option.splits if_splits)
    then show ?thesis by auto
  next
    case True
    then have ty: "ty = ''basic''"
      and t: "\<not> js_includes ?t ''Sequence''" "suffix ''Object'' ?t"
      by simp_all
    have unfold: "handleReference fixes parse product
          (Doc slug title0 ty body excerpt a children) parent [] =
        (case addType fixes parse (pr_id product) ?reference [] of
           Inl e \<Rightarrow> Inl e
         | Inr references' \<Rightarrow>
             (case children of
                Some cs \<Rightarrow> handleChildren fixes parse product cs (Some ?reference) references'
              | None \<Rightarrow> Inr references'))"
      using t unfolding ty by (simp add: Let_def)
    from Doc.prems obtain n0 where n0: "addType fixes parse (pr_id product) ?reference [] = Inr n0"
      and rest: "(case children of
                Some cs \<Rightarrow> handleChildren fixes parse product cs (Some ?reference) n0
              | None \<Rightarrow> Inr n0) = Inr new"
      unfolding unfold by (auto split: sum.splits)
    have s0: "subseq (map r_id n0) [slug]"
      using addType_ids [OF nofix n0] by simp
    show ?thesis
    proof (cases children)
      case None
      with rest s0 show ?thesis
        by (simp add: subseq_Cons')
    next
      case (Some cs)
      with rest have "handleChildren fixes parse product cs (Some ?reference) n0 = Inr new"
        by simp
      then obtain n2 where n2: "handleChildren fixes parse product cs (Some ?reference) [] = Inr n2"
        and new: "new = n0 @ n2"
        by (subst (asm) handleChildren_append)
           (cases "handleChildren fixes parse product cs (Some ?reference) []"; auto)
      have "subseq (map r_id n2) (concat (map slugs cs))"
        using Some n2 by (rule ch)
      with s0 have "subseq (map r_id n0 @ map r_id n2) ([slug] @ concat (map slugs cs))"
        by (rule list_emb_append_mono)
      with Some new show ?thesis by simp
    qed
  qed
qed

lemma handleChildren_ids:
  assumes "\<forall>slug x. fixes slug = Some x \<longrightarrow> x_id x = None"
    and "handleChildren fixes parse product cs parent [] = Inr new"
  shows "subseq (map r_id new) (concat (map slugs cs))"
  using assms(2) by (rule handleChildren_ids_aux [rotated]) (rule handleReference_ids [OF assms(1)])

lemma handlePages_ids:
  assumes nofix: "\<forall>slug x. fixes slug = Some x \<longrightarrow> x_id x = None"
  shows "handlePages fixes parse pages [] = Inr new \<Longrightarrow>
         subseq (map r_id new) (concat (map (\<lambda>page. concat (map slugs (snd page))) pages))"
proof (induction pages arbitrary: new)
  case Nil
  then show ?case by simp
next
  case (Cons page pages)
  obtain product docs where page: "page = (product, docs)"
    by (cases page)
  from Cons.prems page obtain n1 where n1: "handleChildren fixes parse product docs None [] = Inr n1"
    and rest: "handlePages fixes parse pages n1 = Inr new"
    by (auto split: sum.splits)
  from rest obtain n2 where n2: "handlePages fixes parse pages [] = Inr n2"
    and new: "new = n1 @ n2"
    by (subst (asm) handlePages_append)
       (cases "handlePages fixes parse pages []"; auto)
  have "subseq (map r_id n1) (concat (map slugs docs))"
    using nofix n1 by (rule handleChildren_ids)
  moreover have "subseq (map r_id n2) (concat (map (\<lambda>page. concat (map slugs (snd page))) pages))"
    using n2 by (rule Cons.IH)
  ultimately show ?case
    unfolding new page by (simp add: list_emb_append_mono)
qed

text \<open>
  C4, as stated, fails: nothing in the extractor compares ids. When the same
  documentation node is read for two products, each of its references is pushed twice.
\<close>

theorem extraction_duplicate_ids_counterexample:
  "map_sum (\<lambda>e. e) (map r_id)
     (extraction no_fixes scenario_parse [(collect, [customer_object]), (wallet, [customer_object])]) =
     Inr [''customer-object'', ''get-customer'', ''customer-object'', ''get-customer''] \<and>
   \<not> distinct [''customer-object'', ''get-customer'', ''customer-object'', ''get-customer'']"
  by code_simp

text \<open>
  C4, amended. When the slugs of all nodes of all pages are pairwise different and no
  fix replaces an id, no two references of the extracted list share an id.
\<close>

theorem extraction_ids_distinct:
  assumes "extraction fixes parse completed = Inr references"
    and "distinct (concat (map (\<lambda>page. concat (map slugs (snd page))) completed))"
    and "\<forall>slug x. fixes slug = Some x \<longrightarrow> x_id x = None"
  shows "distinct (map r_id references)"
proof -
  from assms(1) have "handlePages fixes parse completed [] = Inr references"
    by (simp add: extraction_def)
  with assms(3) have "subseq (map r_id references)
      (concat (map (\<lambda>page. concat (map slugs (snd page))) completed))"
    by (rule handlePages_ids)
  then have "map r_id references \<in>
      set (subseqs (concat (map (\<lambda>page. concat (map slugs (snd page))) completed)))"
    by simp
  then show ?thesis
    using assms(2) by (rule subseqs_distinctD)
qed

text \<open>Two pages with different slugs: three references with three ids.\<close>

theorem extraction_ids_distinct_witness:
  "extraction no_fixes scenario_parse [(collect, [customer_object]), (wallet, [wallet_object])] =
     Inr [customer_type, get_customer_request, extracted_wallet] \<and>
   distinct (concat (map (\<lambda>page. concat (map slugs (snd page)))
                         [(collect, [customer_object]), (wallet, [wallet_object])])) \<and>
   distinct (map r_id [customer_type, get_customer_request, extracted_wallet])"
proof -
  have e: "extraction no_fixes scenario_parse [(collect, [customer_object]), (wallet, [wallet_object])] =
     Inr [customer_type, get_customer_request, extracted_wallet]"
    by code_simp
  have d: "distinct (concat (map (\<lambda>page. concat (map slugs (snd page)))
                         [(collect, [customer_object]), (wallet, [wallet_object])]))"
    by code_simp
  have nofix: "\<forall>slug x. no_fixes slug = Some x \<longrightarrow> x_id x = None"
    by (simp add: no_fixes_def)
  from extraction_ids_distinct [OF e d nofix] e d show ?thesis
    by simp
qed

subsection \<open>Order\<close>






subsection \<open>The data accessor of a response\<close>



text \<open>The error payload and the success payload.\<close>

lemma data_accessor_examples:
  "response_data rapyd_parse (json_response error_body) =
     Inl (RapydError \<lparr> message = String ''The customer was not found.'',
                       code = String ''ERROR_GET_CUSTOMER'', operationId = String ''a1b2c3'' \<rparr>) \<and>
   response_data rapyd_parse (json_response success_body) = Inr (Object [(''id'', String ''cus_1'')])"
  by code_simp

end
